theory Spec2Isabelle
  imports Complex_Main
begin

section \<open>Bank queue simulation (scripts/simulation.py)\<close>

text \<open>
  Python floats are modelled as reals (no rounding). The value \<open>float('inf')\<close> occurs in
  the source only as the "no event" marker of \<open>next_event_time\<close> and \<open>next_departure\<close> and
  as the clock with which the loop is left, so these three fields range over reals
  extended by plus infinity. \<open>next_arrival\<close> starts as 0.0 and is assigned only by
  \<open>schedule_arrival\<close>, always with a finite time; no statement of the source stores
  \<open>float('inf')\<close> in it.
\<close>

datatype xtime = Fin real | PInf

fun xlt :: "xtime \<Rightarrow> xtime \<Rightarrow> bool" where
  "xlt (Fin a) (Fin b) = (a < b)"
| "xlt (Fin a) PInf = True"
| "xlt PInf b = False"

fun xle :: "xtime \<Rightarrow> xtime \<Rightarrow> bool" where
  "xle (Fin a) (Fin b) = (a \<le> b)"
| "xle a PInf = True"
| "xle PInf (Fin b) = False"

text \<open>Python's \<open>min(a, b)\<close>: the first argument unless the second is smaller.\<close>

definition xmin :: "xtime \<Rightarrow> xtime \<Rightarrow> xtime" where
  "xmin a b = (if xlt b a then b else a)"

datatype error = StopIteration | ZeroDivisionError

subsection \<open>Customer\<close>

record customer =
  cid :: nat
  arrival_time :: real
  service_time :: real
  service_start :: real
  departure_time :: real

text \<open>The dataclass constructor: \<open>service_start\<close> and \<open>departure_time\<close> default to 0.0.
  The field \<open>id\<close> of the source is \<open>cid\<close> here.\<close>

definition Customer :: "nat \<Rightarrow> real \<Rightarrow> real \<Rightarrow> customer" where
  "Customer i a st =
     \<lparr>cid = i, arrival_time = a, service_time = st, service_start = 0, departure_time = 0\<rparr>"

definition waiting_time :: "customer \<Rightarrow> real" where
  "waiting_time c = service_start c - arrival_time c"

definition time_in_system :: "customer \<Rightarrow> real" where
  "time_in_system c = departure_time c - arrival_time c"

subsection \<open>Simulation state\<close>

text \<open>
  The \<open>metrics\<close> dictionary. The two averages are keys that exist only after the final
  computation of \<open>run\<close>.
\<close>

record metrics =
  total_waiting_time :: real
  total_system_time :: real
  max_queue_length :: nat
  server_utilization :: real
  busy_time :: real
  average_waiting_time :: "real option"
  average_system_time :: "real option"

text \<open>
  \<open>customers\<close> owns the customer objects; the queue and the handlers refer to them by
  their position in that list, so that an update through one reference is seen through
  the other. \<open>drawn\<close> counts the samples taken from the random stream so far.
\<close>

record sim =
  num_customers :: int
  customers :: "customer list"
  clock :: xtime
  server_busy :: bool
  queue :: "nat list"
  next_event_time :: xtime
  next_arrival :: real
  next_departure :: xtime
  metrics :: metrics
  drawn :: nat

definition init :: "int \<Rightarrow> sim" where
  "init n =
     \<lparr>num_customers = n, customers = [], clock = Fin 0, server_busy = False, queue = [],
      next_event_time = PInf, next_arrival = 0, next_departure = PInf,
      metrics = \<lparr>total_waiting_time = 0, total_system_time = 0, max_queue_length = 0,
                 server_utilization = 0, busy_time = 0,
                 average_waiting_time = None, average_system_time = None\<rparr>,
      drawn = 0\<rparr>"

subsection \<open>Random durations\<close>

text \<open>
  \<open>np.random.uniform(low, high)\<close> takes one sample \<open>x\<close> of the generator's stream, a
  number in \<open>[0, 1)\<close>, and returns \<open>low + (high - low) * x\<close>. The stream is the
  parameter \<open>u\<close> of the model.
\<close>

definition uniform :: "real \<Rightarrow> real \<Rightarrow> real \<Rightarrow> real" where
  "uniform low high x = low + (high - low) * x"

definition generate_interarrival_time :: "(nat \<Rightarrow> real) \<Rightarrow> sim \<Rightarrow> real \<times> sim" where
  "generate_interarrival_time u s = (uniform 1 8 (u (drawn s)), s\<lparr>drawn := Suc (drawn s)\<rparr>)"

definition generate_service_time :: "(nat \<Rightarrow> real) \<Rightarrow> sim \<Rightarrow> real \<times> sim" where
  "generate_service_time u s = (uniform 1 6 (u (drawn s)), s\<lparr>drawn := Suc (drawn s)\<rparr>)"

subsection \<open>Scheduling and the two event handlers\<close>

definition schedule_arrival :: "real \<Rightarrow> sim \<Rightarrow> sim" where
  "schedule_arrival time s =
     s\<lparr>next_arrival := time, next_event_time := xmin (next_event_time s) (Fin time)\<rparr>"

definition schedule_departure :: "real \<Rightarrow> sim \<Rightarrow> sim" where
  "schedule_departure time s =
     s\<lparr>next_departure := Fin time, next_event_time := xmin (next_event_time s) (Fin time)\<rparr>"

text \<open>
  Both handlers run inside the loop body, after the test that leaves the loop when the
  clock is infinite; \<open>t\<close> is the finite value of \<open>self.clock\<close> there, and \<open>i\<close> is the
  position in \<open>customers\<close> of the customer object passed to the handler. A customer
  taken into service gets \<open>service_start\<close> and then \<open>departure_time\<close> written into its
  record in \<open>customers\<close>.
\<close>

definition handle_arrival :: "(nat \<Rightarrow> real) \<Rightarrow> real \<Rightarrow> nat \<Rightarrow> sim \<Rightarrow> sim" where
  "handle_arrival u t i s =
     (let s1 = (if \<not> server_busy s
                then (let c = (customers s ! i)\<lparr>service_start := t\<rparr>;
                          c' = c\<lparr>departure_time := t + service_time c\<rparr>
                      in schedule_departure (departure_time c')
                           (s\<lparr>server_busy := True, customers := (customers s)[i := c']\<rparr>))
                else s\<lparr>queue := queue s @ [i]\<rparr>);
          s2 = (if int (length (customers s1)) < num_customers s1 - 1
                then (let (ia, sa) = generate_interarrival_time u s1;
                          (st, sb) = generate_service_time u sa;
                          next_customer = Customer (length (customers sb) + 1) (t + ia) st
                      in schedule_arrival (arrival_time next_customer) sb)
                else s1)
      in s2\<lparr>metrics := (metrics s2)\<lparr>max_queue_length :=
              max (max_queue_length (metrics s2)) (length (queue s2))\<rparr>\<rparr>)"

definition handle_departure :: "real \<Rightarrow> nat \<Rightarrow> sim \<Rightarrow> sim" where
  "handle_departure t i s =
     (let c = customers s ! i;
          m = metrics s;
          s1 = s\<lparr>metrics := m\<lparr>total_waiting_time := total_waiting_time m + waiting_time c,
                               total_system_time := total_system_time m + time_in_system c,
                               busy_time := busy_time m + service_time c\<rparr>\<rparr>
      in case queue s1 of
           j # rest \<Rightarrow>
             (let n = (customers s1 ! j)\<lparr>service_start := t\<rparr>;
                  n' = n\<lparr>departure_time := t + service_time n\<rparr>
              in schedule_departure (departure_time n')
                   (s1\<lparr>queue := rest, customers := (customers s1)[j := n']\<rparr>))
         | [] \<Rightarrow> s1\<lparr>server_busy := False, next_departure := PInf\<rparr>)"

subsection \<open>The event loop\<close>

text \<open>
  The departure lookup \<open>next(c for c in self.customers if abs(c.departure_time -
  self.clock) < 1e-6)\<close>: the first customer in list order that passes the test, and
  \<open>StopIteration\<close> (here \<open>None\<close>) when no customer does.
\<close>

definition departs_at :: "real \<Rightarrow> customer \<Rightarrow> bool" where
  "departs_at t c = (\<bar>departure_time c - t\<bar> < 1 / 1000000)"

fun find_departing :: "customer list \<Rightarrow> real \<Rightarrow> nat option" where
  "find_departing [] t = None"
| "find_departing (c # cs) t =
     (if departs_at t c then Some 0 else map_option Suc (find_departing cs t))"

datatype outcome = Continue sim | Break sim | Raise error

text \<open>One pass through the body of the \<open>while\<close> loop of \<open>run\<close>.\<close>

definition iteration :: "(nat \<Rightarrow> real) \<Rightarrow> sim \<Rightarrow> outcome" where
  "iteration u s0 =
     (let s = s0\<lparr>clock := next_event_time s0\<rparr> in
      case clock s of
        PInf \<Rightarrow> Break s
      | Fin t \<Rightarrow>
          (if xle (Fin (next_arrival s)) (next_departure s)
              \<and> int (length (customers s)) < num_customers s
           then (let (st, s1) = generate_service_time u s;
                     current_customer = Customer (length (customers s1)) (next_arrival s1) st;
                     s2 = s1\<lparr>customers := customers s1 @ [current_customer]\<rparr>;
                     s3 = handle_arrival u t (length (customers s1)) s2
                 in Continue (s3\<lparr>next_event_time :=
                        xmin (Fin (next_arrival s3)) (next_departure s3)\<rparr>))
           else (case find_departing (customers s) t of
                   None \<Rightarrow> Raise StopIteration
                 | Some i \<Rightarrow>
                     (let s3 = handle_departure t i s
                      in Continue (s3\<lparr>next_event_time :=
                             xmin (Fin (next_arrival s3)) (next_departure s3)\<rparr>)))))"

text \<open>
  The loop itself. It may run forever, which is the value \<open>None\<close>; \<open>Some (Inl e)\<close> is an
  exception leaving \<open>run\<close>, \<open>Some (Inr s)\<close> the state with which the loop is left.
\<close>

partial_function (option) main_loop :: "(nat \<Rightarrow> real) \<Rightarrow> sim \<Rightarrow> (error + sim) option" where
  "main_loop u s =
     (if xlt (clock s) PInf
      then (case iteration u s of
              Continue s' \<Rightarrow> main_loop u s'
            | Break s' \<Rightarrow> Some (Inr s')
            | Raise e \<Rightarrow> Some (Inl e))
      else Some (Inr s))"

text \<open>The state when the loop is entered: the first customer is generated (its service
  time is drawn and not used again) and its arrival at 0.0 is scheduled.\<close>

definition start :: "int \<Rightarrow> (nat \<Rightarrow> real) \<Rightarrow> sim" where
  "start n u =
     (let (st, s1) = generate_service_time u (init n);
          first_customer = Customer 0 0 st
      in schedule_arrival (arrival_time first_customer) s1)"

text \<open>
  The final metrics. A float division by a zero float or a zero int raises
  \<open>ZeroDivisionError\<close>; a finite float divided by infinity is 0.0.
\<close>

definition div_clock :: "real \<Rightarrow> xtime \<Rightarrow> error + real" where
  "div_clock x c =
     (case c of PInf \<Rightarrow> Inr 0
      | Fin d \<Rightarrow> if d = 0 then Inl ZeroDivisionError else Inr (x / d))"

definition div_count :: "real \<Rightarrow> int \<Rightarrow> error + real" where
  "div_count x n = (if n = 0 then Inl ZeroDivisionError else Inr (x / real_of_int n))"

definition finalize :: "sim \<Rightarrow> error + metrics" where
  "finalize s =
     (case div_clock (busy_time (metrics s)) (clock s) of
        Inl e \<Rightarrow> Inl e
      | Inr q \<Rightarrow>
          (let m1 = (metrics s)\<lparr>server_utilization := q * 100\<rparr> in
           case div_count (total_waiting_time m1) (num_customers s) of
             Inl e \<Rightarrow> Inl e
           | Inr aw \<Rightarrow>
               (let m2 = m1\<lparr>average_waiting_time := Some aw\<rparr> in
                case div_count (total_system_time m2) (num_customers s) of
                  Inl e \<Rightarrow> Inl e
                | Inr asys \<Rightarrow> Inr (m2\<lparr>average_system_time := Some asys\<rparr>))))"

definition run :: "int \<Rightarrow> (nat \<Rightarrow> real) \<Rightarrow> (error + metrics) option" where
  "run n u =
     (case main_loop u (start n u) of
        None \<Rightarrow> None
      | Some (Inl e) \<Rightarrow> Some (Inl e)
      | Some (Inr s) \<Rightarrow> Some (finalize s))"

subsection \<open>Export of the customer records\<close>




subsection \<open>Observing the loop after a number of passes\<close>

text \<open>The outcome of at most \<open>k\<close> passes of the loop from state \<open>s\<close>: \<open>Continue s'\<close> when
  all \<open>k\<close> passes were made and the loop stands at its head in \<open>s'\<close>.\<close>

fun passes :: "nat \<Rightarrow> (nat \<Rightarrow> real) \<Rightarrow> sim \<Rightarrow> outcome" where
  "passes 0 u s = Continue s"
| "passes (Suc k) u s =
     (if xlt (clock s) PInf
      then (case iteration u s of
              Continue s' \<Rightarrow> passes k u s'
            | Break s' \<Rightarrow> Break s'
            | Raise e \<Rightarrow> Raise e)
      else Break s)"


subsection \<open>The station invariant and some concrete runs\<close>

text \<open>The wait queue is non-empty only while the server is busy.\<close>

definition station_inv :: "sim \<Rightarrow> bool" where
  "station_inv s = (queue s \<noteq> [] \<longrightarrow> server_busy s)"

text \<open>A random stream whose every sample is 0.5: every service time is 3.5 and every
  interarrival time 4.5, both exact in binary floating point.\<close>

definition sample_half :: "nat \<Rightarrow> real" where
  "sample_half k = 1 / 2"

definition metrics0 :: metrics where
  "metrics0 = \<lparr>total_waiting_time = 0, total_system_time = 0, max_queue_length = 0,
                 server_utilization = 0, busy_time = 0,
                 average_waiting_time = None, average_system_time = None\<rparr>"

text \<open>\<open>num_customers = 1\<close>: the state after the first pass of the loop, which processed
  the arrival of the only customer.\<close>

definition after_single_arrival :: sim where
  "after_single_arrival =
     \<lparr>num_customers = 1,
      customers = [\<lparr>cid = 0, arrival_time = 0, service_time = 7 / 2, service_start = 0,
                    departure_time = 7 / 2\<rparr>],
      clock = Fin 0, server_busy = True, queue = [], next_event_time = Fin 0,
      next_arrival = 0, next_departure = Fin (7 / 2),
      metrics = metrics0, drawn = 2\<rparr>"

text \<open>\<open>num_customers = 2\<close>: the state after two passes (both arrivals, the second customer
  waits in the queue) and after the third pass (a departure dispatched at clock 0).\<close>

definition after_second_arrival :: sim where
  "after_second_arrival =
     \<lparr>num_customers = 2,
      customers = [\<lparr>cid = 0, arrival_time = 0, service_time = 7 / 2, service_start = 0,
                    departure_time = 7 / 2\<rparr>,
                   \<lparr>cid = 1, arrival_time = 0, service_time = 7 / 2, service_start = 0,
                    departure_time = 0\<rparr>],
      clock = Fin 0, server_busy = True, queue = [1], next_event_time = Fin 0,
      next_arrival = 0, next_departure = Fin (7 / 2),
      metrics = metrics0\<lparr>max_queue_length := 1\<rparr>, drawn = 3\<rparr>"

definition after_phantom_departure :: sim where
  "after_phantom_departure =
     \<lparr>num_customers = 2,
      customers = [\<lparr>cid = 0, arrival_time = 0, service_time = 7 / 2, service_start = 0,
                    departure_time = 7 / 2\<rparr>,
                   \<lparr>cid = 1, arrival_time = 0, service_time = 7 / 2, service_start = 0,
                    departure_time = 7 / 2\<rparr>],
      clock = Fin 0, server_busy = True, queue = [], next_event_time = Fin 0,
      next_arrival = 0, next_departure = Fin (7 / 2),
      metrics = metrics0\<lparr>max_queue_length := 1, busy_time := 7 / 2\<rparr>, drawn = 3\<rparr>"

text \<open>A random stream whose every sample is 0: every service time and every
  interarrival time is 1.\<close>

definition sample_zero :: "nat \<Rightarrow> real" where
  "sample_zero k = 0"

text \<open>The states of a run with three customers in which all of them have arrived, the
  first one has left at time 1, the server is idle and the arrival at time 1, long
  processed, is still the next event.\<close>

definition idle_forever :: "sim \<Rightarrow> bool" where
  "idle_forever s =
     (num_customers s = 3 \<and> length (customers s) = 3
      \<and> departure_time (customers s ! 0) = 1
      \<and> clock s = Fin 1 \<and> queue s = [] \<and> next_event_time s = Fin 1
      \<and> next_arrival s = 1 \<and> next_departure s = PInf)"

text \<open>Every reference held by the queue points to a customer of the list.\<close>

definition refs_valid :: "sim \<Rightarrow> bool" where
  "refs_valid s = (\<forall>j \<in> set (queue s). j < length (customers s))"


subsection \<open>The times of the customers\<close>




section \<open>Auxiliary facts\<close>

lemmas model_defs = iteration_def start_def init_def generate_service_time_def
  generate_interarrival_time_def uniform_def schedule_arrival_def schedule_departure_def
  xmin_def Customer_def handle_arrival_def handle_departure_def
  departs_at_def waiting_time_def time_in_system_def

lemmas state_defs = after_single_arrival_def after_second_arrival_def
  after_phantom_departure_def metrics0_def sample_half_def

subsection \<open>The loop and its passes\<close>

lemma main_loop_Continue:
  "passes k u s = Continue s' \<Longrightarrow> main_loop u s = main_loop u s'"
proof (induction k arbitrary: s)
  case 0
  then show ?case by simp
next
  case (Suc k)
  then show ?case
    by (subst main_loop.simps) (auto split: if_splits outcome.splits)
qed

lemma main_loop_Raise:
  "passes k u s = Raise e \<Longrightarrow> main_loop u s = Some (Inl e)"
proof (induction k arbitrary: s)
  case 0
  then show ?case by simp
next
  case (Suc k)
  then show ?case
    by (subst main_loop.simps) (auto split: if_splits outcome.splits)
qed

lemma xmin_Fin: "\<exists>t. xmin (Fin a) b = Fin t"
  by (cases b) (simp_all add: xmin_def)

lemma clock_handle_arrival [simp]: "clock (handle_arrival u t i s) = clock s"
  by (simp add: handle_arrival_def Let_def generate_interarrival_time_def
      generate_service_time_def schedule_arrival_def schedule_departure_def)

lemma clock_handle_departure [simp]: "clock (handle_departure t i s) = clock s"
  by (simp add: handle_departure_def Let_def schedule_departure_def split: list.splits)

lemma iteration_Continue:
  assumes "iteration u s = Continue s'"
  shows "clock s' = next_event_time s" and "\<exists>t. next_event_time s' = Fin t"
  using assms xmin_Fin
  by (auto simp: iteration_def Let_def generate_service_time_def
      split: xtime.splits if_splits option.splits)

lemma iteration_Break:
  "iteration u s = Break s' \<Longrightarrow> next_event_time s = PInf"
  by (auto simp: iteration_def Let_def generate_service_time_def
      split: xtime.splits if_splits option.splits)

text \<open>From a state whose clock and next event time are finite the loop can only be left
  by an exception: the next event time stays finite, because it is the minimum of
  \<open>next_arrival\<close>, which is finite, and \<open>next_departure\<close>.\<close>

lemma main_loop_only_raises:
  assumes "main_loop u s = Some r"
  shows "clock s \<noteq> PInf \<longrightarrow> next_event_time s \<noteq> PInf \<longrightarrow> (\<exists>e. r = Inl e)"
proof (rule main_loop.raw_induct [OF _ assms])
  fix loop :: "(nat \<Rightarrow> real) \<Rightarrow> sim \<Rightarrow> (error + sim) option" and u s r
  assume IH: "\<And>u s r. loop u s = Some r \<Longrightarrow>
      clock s \<noteq> PInf \<longrightarrow> next_event_time s \<noteq> PInf \<longrightarrow> (\<exists>e. r = Inl e)"
    and body: "(if xlt (clock s) PInf
        then case iteration u s of Continue s' \<Rightarrow> loop u s'
             | Break s' \<Rightarrow> Some (Inr s') | Raise e \<Rightarrow> Some (Inl e)
        else Some (Inr s)) = Some r"
  show "clock s \<noteq> PInf \<longrightarrow> next_event_time s \<noteq> PInf \<longrightarrow> (\<exists>e. r = Inl e)"
  proof (intro impI)
    assume c: "clock s \<noteq> PInf" and n: "next_event_time s \<noteq> PInf"
    from c obtain t where t: "clock s = Fin t" by (cases "clock s") auto
    show "\<exists>e. r = Inl e"
    proof (cases "iteration u s")
      case (Continue s')
      with body t have "loop u s' = Some r" by simp
      moreover from iteration_Continue [OF Continue] n
      have "clock s' \<noteq> PInf" "next_event_time s' \<noteq> PInf" by auto
      ultimately show ?thesis using IH by blast
    next
      case (Break s')
      with iteration_Break n show ?thesis by blast
    next
      case (Raise e)
      with body t show ?thesis by auto
    qed
  qed
qed

lemma start_finite: "clock (start n u) = Fin 0" "next_event_time (start n u) = Fin 0"
  by (simp_all add: start_def init_def generate_service_time_def schedule_arrival_def
      Customer_def xmin_def)

subsection \<open>Concrete passes\<close>

lemma pass2: "passes 2 sample_half (start 2 sample_half) = Continue after_second_arrival"
  by (simp add: numeral_2_eq_2 model_defs state_defs Let_def)

lemma passes_single_raise:
  assumes "0 \<le> u 1"
  shows "passes 2 u (start 1 u) = Raise StopIteration"
  using assms
  by (simp add: numeral_2_eq_2 model_defs Let_def)

lemma passes_nonpositive:
  assumes "n \<le> 0"
  shows "passes 1 u (start n u) = Raise StopIteration"
  using assms
  by (simp add: model_defs Let_def)

subsection \<open>The departure lookup\<close>



subsection \<open>Preservation of the station invariant\<close>

lemma busy_handle_arrival: "server_busy (handle_arrival u t i s)"
  by (simp add: handle_arrival_def Let_def generate_interarrival_time_def
      generate_service_time_def schedule_arrival_def schedule_departure_def)

lemma inv_handle_departure:
  "station_inv s \<Longrightarrow> station_inv (handle_departure t i s)"
  by (simp add: station_inv_def handle_departure_def Let_def schedule_departure_def
      split: list.splits)

lemma inv_iteration:
  assumes "iteration u s = Continue s'" and "station_inv s"
  shows "station_inv s'"
proof -
  have upd: "\<And>r x. station_inv (r\<lparr>next_event_time := x\<rparr>) = station_inv r"
    "\<And>r c. station_inv (r\<lparr>clock := c\<rparr>) = station_inv r"
    by (simp_all add: station_inv_def)
  from assms show ?thesis
    by (auto simp: iteration_def Let_def upd generate_service_time_def
        inv_handle_departure
        split: xtime.splits if_splits option.splits)
      (simp add: station_inv_def busy_handle_arrival)
qed

lemma inv_passes:
  "passes k u s = Continue s' \<Longrightarrow> station_inv s \<Longrightarrow> station_inv s'"
proof (induction k arbitrary: s)
  case 0
  then show ?case by simp
next
  case (Suc k)
  then show ?case
    by (auto split: if_splits outcome.splits dest: inv_iteration)
qed

lemma inv_start: "station_inv (start n u)"
  by (simp add: station_inv_def start_def init_def generate_service_time_def
      schedule_arrival_def Let_def)


subsection \<open>References into the customer list\<close>

text \<open>The handlers are only ever called with a position inside the customer list, and
  the queue only ever holds such positions.\<close>

lemma refs_valid_handle_arrival:
  "refs_valid s \<Longrightarrow> i < length (customers s) \<Longrightarrow> refs_valid (handle_arrival u t i s)"
  by (auto simp: refs_valid_def handle_arrival_def Let_def generate_interarrival_time_def
      generate_service_time_def schedule_arrival_def schedule_departure_def)

lemma refs_valid_handle_departure:
  "refs_valid s \<Longrightarrow> refs_valid (handle_departure t i s)"
  by (auto simp: refs_valid_def handle_departure_def Let_def schedule_departure_def
      split: list.splits)

lemma refs_valid_iteration:
  assumes "iteration u s = Continue s'" and "refs_valid s"
  shows "refs_valid s'"
proof -
  have upd: "\<And>r x. refs_valid (r\<lparr>next_event_time := x\<rparr>) = refs_valid r"
    "\<And>r c. refs_valid (r\<lparr>clock := c\<rparr>) = refs_valid r"
    "\<And>r c. refs_valid (r\<lparr>drawn := c\<rparr>) = refs_valid r"
    by (simp_all add: refs_valid_def)
  from assms show ?thesis
    by (auto simp: iteration_def Let_def upd generate_service_time_def
        refs_valid_handle_departure
        intro!: refs_valid_handle_arrival
        split: xtime.splits if_splits option.splits)
      (auto simp: refs_valid_def less_Suc_eq)
qed

lemma refs_valid_passes:
  "passes k u s = Continue s' \<Longrightarrow> refs_valid s \<Longrightarrow> refs_valid s'"
proof (induction k arbitrary: s)
  case 0
  then show ?case by simp
next
  case (Suc k)
  then show ?case
    by (auto split: if_splits outcome.splits dest: refs_valid_iteration)
qed

lemma refs_valid_start: "refs_valid (start n u)"
  by (simp add: refs_valid_def start_def init_def generate_service_time_def
      schedule_arrival_def Let_def)

subsection \<open>A run that never ends\<close>

text \<open>With three customers and every sample 0 (all durations 1) the run reaches, after
  seven passes, a state from which every further pass dispatches the departure of
  customer 0 again, at clock 1, for ever.\<close>

lemma idle_forever_step:
  assumes "idle_forever s"
  shows "\<exists>s'. iteration u s = Continue s' \<and> idle_forever s'"
proof -
  from assms obtain c cs where cs: "customers s = c # cs" "departure_time c = 1"
    by (cases "customers s") (auto simp: idle_forever_def)
  with assms show ?thesis
    by (simp add: idle_forever_def iteration_def handle_departure_def departs_at_def
        xmin_def Let_def)
qed

lemma idle_forever_no_result:
  assumes "main_loop u s = Some r"
  shows "\<not> idle_forever s"
proof (rule main_loop.raw_induct [OF _ assms])
  fix loop :: "(nat \<Rightarrow> real) \<Rightarrow> sim \<Rightarrow> (error + sim) option" and u s r
  assume IH: "\<And>u s r. loop u s = Some r \<Longrightarrow> \<not> idle_forever s"
    and body: "(if xlt (clock s) PInf
        then case iteration u s of Continue s' \<Rightarrow> loop u s'
             | Break s' \<Rightarrow> Some (Inr s') | Raise e \<Rightarrow> Some (Inl e)
        else Some (Inr s)) = Some r"
  show "\<not> idle_forever s"
  proof
    assume q: "idle_forever s"
    from idle_forever_step [OF q] obtain s' where
      s': "iteration u s = Continue s'" "idle_forever s'" by blast
    from q have "clock s = Fin 1" by (simp add: idle_forever_def)
    with body s' have "loop u s' = Some r" by simp
    with IH s' show False by blast
  qed
qed

lemma run_diverges: "run 3 sample_zero = None"
proof -
  obtain s where s: "passes 7 sample_zero (start 3 sample_zero) = Continue s" "idle_forever s"
    by (simp add: eval_nat_numeral model_defs sample_zero_def idle_forever_def Let_def)
  from idle_forever_no_result s(2) have "main_loop sample_zero s = None"
    by (cases "main_loop sample_zero s") auto
  with main_loop_Continue [OF s(1)] show ?thesis by (simp add: run_def)
qed

subsection \<open>The range of the durations\<close>

lemma durations_in_range:
  assumes "0 \<le> u (drawn s)" and "u (drawn s) < 1"
  shows "1 \<le> fst (generate_interarrival_time u s) \<and> fst (generate_interarrival_time u s) < 8
       \<and> 1 \<le> fst (generate_service_time u s) \<and> fst (generate_service_time u s) < 6"
  using assms
  by (simp add: generate_interarrival_time_def generate_service_time_def uniform_def)

subsection \<open>The times of the customers along a run\<close>













subsection \<open>How the loop can be left\<close>

text \<open>The loop raises nothing but \<open>StopIteration\<close>, and a state with which it is left has an
  infinite clock. As no run leaves the loop, no run raises \<open>ZeroDivisionError\<close>.\<close>

lemma iteration_Break_clock:
  "iteration u s = Break s' \<Longrightarrow> clock s' = PInf"
  by (auto simp: iteration_def Let_def generate_service_time_def
      split: xtime.splits if_splits option.splits)

lemma iteration_Raise:
  "iteration u s = Raise e \<Longrightarrow> e = StopIteration"
  by (auto simp: iteration_def Let_def generate_service_time_def
      split: xtime.splits if_splits option.splits)

lemma main_loop_result:
  assumes "main_loop u s = Some r"
  shows "r = Inl StopIteration \<or> (\<exists>s'. r = Inr s' \<and> clock s' = PInf)"
proof (rule main_loop.raw_induct [OF _ assms])
  fix loop :: "(nat \<Rightarrow> real) \<Rightarrow> sim \<Rightarrow> (error + sim) option" and u s r
  assume IH: "\<And>u s r. loop u s = Some r \<Longrightarrow>
      r = Inl StopIteration \<or> (\<exists>s'. r = Inr s' \<and> clock s' = PInf)"
    and body: "(if xlt (clock s) PInf
        then case iteration u s of Continue s' \<Rightarrow> loop u s'
             | Break s' \<Rightarrow> Some (Inr s') | Raise e \<Rightarrow> Some (Inl e)
        else Some (Inr s)) = Some r"
  show "r = Inl StopIteration \<or> (\<exists>s'. r = Inr s' \<and> clock s' = PInf)"
  proof (cases "xlt (clock s) PInf")
    case False
    then have "clock s = PInf" by (cases "clock s") auto
    with body False show ?thesis by auto
  next
    case True
    show ?thesis
    proof (cases "iteration u s")
      case (Continue s')
      with body True IH show ?thesis by simp
    next
      case (Break s')
      with body True iteration_Break_clock [OF Break] show ?thesis by auto
    next
      case (Raise e)
      with body True iteration_Raise [OF Raise] show ?thesis by auto
    qed
  qed
qed

lemma run_no_division_fault: "run n u \<noteq> Some (Inl ZeroDivisionError)"
proof
  assume r: "run n u = Some (Inl ZeroDivisionError)"
  show False
  proof (cases "main_loop u (start n u)")
    case None
    with r show False by (simp add: run_def)
  next
    case (Some x)
    from main_loop_only_raises [OF Some] obtain e where "x = Inl e"
      by (auto simp: start_finite)
    moreover from main_loop_result [OF Some] this have "e = StopIteration" by auto
    ultimately show False using r Some by (simp add: run_def)
  qed
qed

section \<open>The claims\<close>

subsection \<open>C1: the last arrival\<close>

text \<open>
  C1 says that processing the arrival of the last customer clears the pending arrival
  event, so that the scheduler never again selects an arrival as the next event. The
  source has no statement that clears \<open>next_arrival\<close>. With \<open>num_customers = 1\<close> and every
  sample 0.5, the first pass creates the one customer record; after it \<open>next_arrival\<close> is
  still 0.0 and the next event time is that arrival time again, not the departure at
  3.5. The following pass therefore runs at clock 0 and, the customer budget being used
  up, dispatches a departure, for which no customer is found.
\<close>

theorem last_arrival_keeps_pending_arrival:
  "passes 1 sample_half (start 1 sample_half) = Continue after_single_arrival
   \<and> int (length (customers after_single_arrival)) = num_customers after_single_arrival
   \<and> next_arrival after_single_arrival = 0
   \<and> next_departure after_single_arrival = Fin (7 / 2)
   \<and> next_event_time after_single_arrival = Fin (next_arrival after_single_arrival)
   \<and> iteration sample_half after_single_arrival = Raise StopIteration"
  by (simp add: model_defs state_defs Let_def)

subsection \<open>C2: termination of the event loop\<close>

text \<open>
  C2 says that the loop ends by exhausting the pending events and that \<open>run\<close> returns the
  final metrics. In the source the loop is left normally only when the next event time
  is infinite, and that never happens: for every \<open>num_customers\<close> and every random stream,
  \<open>run\<close> does not return metrics. It ends with an exception (one customer, lemma
  \<open>passes_single_raise\<close>) or runs forever (three customers and all durations 1, lemma
  \<open>run_diverges\<close>).
\<close>

theorem run_never_returns: "run n u \<noteq> Some (Inr m)"
proof
  assume "run n u = Some (Inr m)"
  then obtain s where "main_loop u (start n u) = Some (Inr s)"
    by (auto simp: run_def split: option.splits sum.splits)
  from main_loop_only_raises [OF this] show False
    by (simp add: start_finite)
qed

text \<open>For one customer and every sample 0.5 the metrics the run would have to return
  (no waiting, no queue) are not returned.\<close>

theorem run_never_returns_witness:
  "run 1 sample_half \<noteq> Some (Inr metrics0)"
  using run_never_returns [of 1 sample_half metrics0] by simp

subsection \<open>C3: the departure lookup\<close>

text \<open>
  C3 says that whenever a departure is dispatched the lookup resolves to exactly one
  customer, and never silently to a customer other than the one in service. With one
  customer and every sample 0.5, the second pass dispatches a departure at clock 0, the
  time of the arrival already processed, and the lookup resolves to no customer at all:
  the run ends with \<open>StopIteration\<close>. With two customers, the third pass dispatches a
  departure at clock 0 while customer 0 is in service until 3.5, and the lookup takes
  customer 1, who waits in the queue.
\<close>

theorem departure_lookup_no_match:
  "passes 1 sample_half (start 1 sample_half) = Continue after_single_arrival
   \<and> \<not> (xle (Fin (next_arrival after_single_arrival)) (next_departure after_single_arrival)
          \<and> int (length (customers after_single_arrival)) < num_customers after_single_arrival)
   \<and> filter (departs_at 0) (customers after_single_arrival) = []
   \<and> iteration sample_half after_single_arrival = Raise StopIteration
   \<and> passes 2 sample_half (start 2 sample_half) = Continue after_second_arrival
   \<and> server_busy after_second_arrival
   \<and> next_departure after_second_arrival
       = Fin (departure_time (customers after_second_arrival ! 0))
   \<and> queue after_second_arrival = [1]
   \<and> find_departing (customers after_second_arrival) 0 = Some 1"
  by (simp add: numeral_2_eq_2 model_defs state_defs Let_def)

subsection \<open>C4: a single customer\<close>

text \<open>
  C4 says that the run with \<open>num_customers = 1\<close> completes with a utilization of 100%. In
  the source this run ends with \<open>StopIteration\<close> for every random stream whose samples are
  not negative: after the arrival at clock 0 the next pass is again at clock 0, and the
  only customer departs at its service time, which is at least 1.
\<close>

theorem single_customer_run_raises:
  assumes "0 \<le> u 1"
  shows "run 1 u = Some (Inl StopIteration)"
proof -
  from assms have "passes 2 u (start 1 u) = Raise StopIteration"
    by (rule passes_single_raise)
  from main_loop_Raise [OF this] show ?thesis by (simp add: run_def)
qed

theorem single_customer_run_raises_witness:
  "0 \<le> sample_half 1 \<and> run 1 sample_half = Some (Inl StopIteration)"
proof -
  have h: "0 \<le> sample_half 1" by (simp add: sample_half_def)
  from single_customer_run_raises [of sample_half] h show ?thesis by simp
qed

subsection \<open>C6: conservation of the accumulated times\<close>

text \<open>
  C6 says that after a run the total system time is the sum of the total waiting time
  and the busy time. With \<open>num_customers = 2\<close> and every sample 0.5, the third pass
  accounts a departure for customer 1 before its service has begun: the system time and
  the waiting time stay 0 while the busy time becomes 3.5. The run then ends with
  \<open>StopIteration\<close>, so the final computation is never reached.
\<close>

theorem phantom_departure_breaks_conservation:
  "passes 3 sample_half (start 2 sample_half) = Continue after_phantom_departure
   \<and> total_system_time (metrics after_phantom_departure) = 0
   \<and> total_waiting_time (metrics after_phantom_departure)
       + busy_time (metrics after_phantom_departure) = 7 / 2
   \<and> run 2 sample_half = Some (Inl StopIteration)"
proof -
  have p3: "passes 3 sample_half (start 2 sample_half) = Continue after_phantom_departure"
    by (simp add: numeral_3_eq_3 model_defs state_defs Let_def)
  have "passes 4 sample_half (start 2 sample_half) = Raise StopIteration"
    by (simp add: eval_nat_numeral model_defs state_defs Let_def)
  from main_loop_Raise [OF this] have "run 2 sample_half = Some (Inl StopIteration)"
    by (simp add: run_def)
  with p3 show ?thesis by (simp add: state_defs)
qed

subsection \<open>C7: waiting time and time in system of a completed customer\<close>




subsection \<open>C8: the station invariant\<close>

text \<open>
  C8: after every arrival and every departure transition the wait queue is non-empty
  only while the server is busy. The arrival handler establishes the invariant from any
  state, the departure handler preserves it, and it holds at the head of the loop after
  any number of passes of any run.
\<close>

theorem station_invariant:
  "station_inv (handle_arrival u t i s)
   \<and> (station_inv s \<longrightarrow> station_inv (handle_departure t i s))
   \<and> (passes k u (start n u) = Continue s' \<longrightarrow> station_inv s')"
  using inv_passes [OF _ inv_start] inv_handle_departure busy_handle_arrival
  by (auto simp: station_inv_def)

theorem station_invariant_witness:
  "station_inv (handle_arrival sample_half 0 1 after_second_arrival)
   \<and> passes 2 sample_half (start 2 sample_half) = Continue after_second_arrival
   \<and> station_inv after_second_arrival \<and> queue after_second_arrival \<noteq> []
   \<and> station_inv (handle_departure 0 1 after_second_arrival)"
  using station_invariant [of sample_half 0 1 after_second_arrival 2 2 after_second_arrival]
    pass2
  by (simp add: after_second_arrival_def)

subsection \<open>C9: invalid configurations\<close>

text \<open>
  C9, as amended: \<open>num_customers\<close> is not validated. The constructor stores any integer,
  and with \<open>num_customers \<le> 0\<close> the first pass of the loop dispatches a departure on the
  empty customer list, so that the run ends with \<open>StopIteration\<close>, for every random
  stream. The durations are not validated either: they are drawn uniformly and lie in
  \<open>[1, 8)\<close> (interarrival) and \<open>[1, 6)\<close> (service) for every sample in \<open>[0, 1)\<close>.
\<close>

theorem nonpositive_customers_stop_iteration:
  "(n \<le> 0 \<longrightarrow> num_customers (init n) = n \<and> run n u = Some (Inl StopIteration))
   \<and> (0 \<le> u (drawn s) \<and> u (drawn s) < 1 \<longrightarrow>
        1 \<le> fst (generate_interarrival_time u s) \<and> fst (generate_interarrival_time u s) < 8
        \<and> 1 \<le> fst (generate_service_time u s) \<and> fst (generate_service_time u s) < 6)"
proof (intro conjI impI)
  assume "n \<le> 0"
  then have "passes 1 u (start n u) = Raise StopIteration"
    by (rule passes_nonpositive)
  from main_loop_Raise [OF this] show "run n u = Some (Inl StopIteration)"
    by (simp add: run_def)
next
  show "num_customers (init n) = n" by (simp add: init_def)
qed (simp_all add: durations_in_range)

theorem nonpositive_customers_stop_iteration_witness:
  "(- 3 :: int) \<le> 0 \<and> num_customers (init (- 3)) = - 3
   \<and> run (- 3) sample_half = Some (Inl StopIteration)
   \<and> 0 \<le> sample_half (drawn (init (- 3))) \<and> sample_half (drawn (init (- 3))) < 1
   \<and> fst (generate_interarrival_time sample_half (init (- 3))) = 9 / 2
   \<and> fst (generate_service_time sample_half (init (- 3))) = 7 / 2"
  using nonpositive_customers_stop_iteration [of "- 3" sample_half "init (- 3)"]
  by (simp add: sample_half_def generate_interarrival_time_def generate_service_time_def
      uniform_def)

text \<open>
  C9 as stated fails: with \<open>num_customers = 0\<close> the constructor accepts the value, the loop
  is entered with an arrival scheduled at 0.0, and the error that ends the run is the
  \<open>StopIteration\<close> of the departure lookup, not a configuration error.
\<close>

theorem zero_customers_stop_iteration:
  "num_customers (init 0) = 0
   \<and> next_event_time (start 0 sample_half) = Fin 0
   \<and> iteration sample_half (start 0 sample_half) = Raise StopIteration
   \<and> run 0 sample_half = Some (Inl StopIteration)"
proof -
  have i: "iteration sample_half (start 0 sample_half) = Raise StopIteration"
    by (simp add: model_defs state_defs Let_def)
  have "passes 1 sample_half (start 0 sample_half) = Raise StopIteration"
    by (simp add: model_defs state_defs Let_def)
  from main_loop_Raise [OF this] i show ?thesis
    by (simp add: run_def init_def start_finite)
qed

subsection \<open>C10: the defaults of a customer not yet served\<close>



end
